theory Spec2Isabelle
  imports Complex_Main "HOL-Library.Word"
begin

unbundle bit_operations_syntax

section \<open>Data model of gesture_typing.py\<close>

text \<open>
  A colour is a BGR tuple of Python ints, a point a pair of integer pixel coordinates,
  a landmark the normalised \<open>(x, y)\<close> of one hand joint. Python floats are read as
  real numbers.
\<close>

type_synonym color = "int \<times> int \<times> int"
type_synonym point = "int \<times> int"
type_synonym landmark = "real \<times> real"
type_synonym pixel = "8 word \<times> 8 word \<times> 8 word"

text \<open>
  The two OpenCV primitives that \<open>draw_on_canvas\<close> calls on the canvas:
  \<open>cv2.circle(canvas, center, radius, color, -1)\<close> and
  \<open>cv2.line(canvas, pt1, pt2, color, thickness)\<close>.
\<close>

datatype prim =
    Circle point int color
  | Line point point color int

text \<open>
  The canvas is the numpy array of \<open>init_canvas\<close> (its shape \<open>(height, width)\<close> and
  its rows of \<open>uint8\<close> pixels) together with the OpenCV primitives drawn onto it since,
  oldest first. OpenCV's rasterisation is not part of the repository, so a drawn
  primitive is recorded, not rendered.
\<close>

record canvas =
  shape :: "nat \<times> nat"
  pixels :: "pixel list list"
  strokes :: "prim list"

text \<open>
  The attributes of \<open>GestureDrawingBoard\<close> that the gesture pipeline reads or writes,
  followed by the locals of \<open>run\<close> that live across loop iterations:
  \<open>last_finger_count\<close>, whether \<open>hands\<close> is a tracker (not \<open>None\<close>), and whether
  \<open>handle_mouse\<close> was registered as the window's mouse callback.
\<close>

record board =
  FINGERS_FOR_DRAW :: int
  FINGERS_FOR_ERASE :: int
  SCREEN_WIDTH :: nat
  SCREEN_HEIGHT :: nat
  drawing_mode :: bool
  current_color :: color
  brush_size :: int
  eraser_size :: int
  canvas :: canvas
  colors :: "color list"
  hand_pos :: point
  is_drawing :: bool
  last_draw_point :: "point option"
  last_erase_point :: "point option"
  mouse_mode :: bool
  last_finger_count :: int
  hands :: bool
  mouse_callback :: bool

section \<open>Canvas operations\<close>

definition zeros :: "nat \<Rightarrow> nat \<Rightarrow> pixel list list" where
  "zeros height width = replicate height (replicate width (0, 0, 0))"

definition fill :: "pixel \<Rightarrow> pixel list list \<Rightarrow> pixel list list" where
  "fill p rows = map (map (\<lambda>_. p)) rows"

definition background :: pixel where
  "background = (20, 20, 20)"

text \<open>\<open>init_canvas\<close>: a fresh zero array of shape \<open>(height, width, 3)\<close>, then
  \<open>canvas[:] = (20, 20, 20)\<close>.\<close>

definition init_canvas :: "nat \<Rightarrow> nat \<Rightarrow> board \<Rightarrow> board" where
  "init_canvas width height s =
     (let c = \<lparr>shape = (height, width), pixels = zeros height width, strokes = []\<rparr>
      in s\<lparr>canvas := c\<lparr>pixels := fill background (pixels c)\<rparr>\<rparr>)"

definition cv2_circle :: "point \<Rightarrow> int \<Rightarrow> color \<Rightarrow> canvas \<Rightarrow> canvas" where
  "cv2_circle center radius col c = c\<lparr>strokes := strokes c @ [Circle center radius col]\<rparr>"

definition cv2_line :: "point \<Rightarrow> point \<Rightarrow> color \<Rightarrow> int \<Rightarrow> canvas \<Rightarrow> canvas" where
  "cv2_line pt1 pt2 col thickness c = c\<lparr>strokes := strokes c @ [Line pt1 pt2 col thickness]\<rparr>"

text \<open>\<open>math.sqrt((x2 - x1)**2 + (y2 - y1)**2)\<close> on integer pixel coordinates.\<close>

definition distance :: "point \<Rightarrow> point \<Rightarrow> real" where
  "distance p1 p2 =
     (case (p1, p2) of ((x1, y1), (x2, y2)) \<Rightarrow>
        sqrt (real_of_int ((x2 - x1)\<^sup>2 + (y2 - y1)\<^sup>2)))"

text \<open>\<open>draw_on_canvas(x, y, mode)\<close>; any mode other than the two strings does nothing.\<close>

definition draw_on_canvas :: "int \<Rightarrow> int \<Rightarrow> string \<Rightarrow> board \<Rightarrow> board" where
  "draw_on_canvas x y mode s =
     (if mode = ''draw'' then
        (let s1 = s\<lparr>canvas := cv2_circle (x, y) (brush_size s) (current_color s) (canvas s)\<rparr>;
             s2 = (case last_draw_point s1 of
                     None \<Rightarrow> s1
                   | Some p1 \<Rightarrow>
                       if distance p1 (x, y) < 100
                       then s1\<lparr>canvas := cv2_line p1 (x, y) (current_color s1)
                                            (brush_size s1 * 2) (canvas s1)\<rparr>
                       else s1)
         in s2\<lparr>last_draw_point := Some (x, y)\<rparr>)
      else if mode = ''erase'' then
        (let s1 = s\<lparr>canvas := cv2_circle (x, y) (eraser_size s) (20, 20, 20) (canvas s)\<rparr>;
             s2 = (case last_erase_point s1 of
                     None \<Rightarrow> s1
                   | Some p1 \<Rightarrow>
                       if distance p1 (x, y) < 100
                       then s1\<lparr>canvas := cv2_line p1 (x, y) (20, 20, 20)
                                            (eraser_size s1) (canvas s1)\<rparr>
                       else s1)
         in s2\<lparr>last_erase_point := Some (x, y)\<rparr>)
      else s)"

definition reset_last_points :: "board \<Rightarrow> board" where
  "reset_last_points s = s\<lparr>last_draw_point := None, last_erase_point := None\<rparr>"

section \<open>Finger-state classification\<close>

text \<open>
  What \<open>hands.process\<close> yields for a frame: it raises, or it returns
  \<open>multi_hand_landmarks\<close>, the landmark lists of the detected hands (\<open>None\<close> and the
  empty list are both falsy, and are both \<open>[]\<close> here).
\<close>

datatype inference = Raises | Detected "landmark list list"

text \<open>Python's \<open>int\<close> on a float truncates towards zero.\<close>

definition py_int :: "real \<Rightarrow> int" where
  "py_int r = (if r < 0 then \<lceil>r\<rceil> else \<lfloor>r\<rfloor>)"

definition finger_tips :: "nat list" where
  "finger_tips = [4, 8, 12, 16, 20]"

definition finger_pips :: "nat list" where
  "finger_pips = [3, 6, 10, 14, 18]"

text \<open>The body of the loop over \<open>range(5)\<close> that computes \<open>is_extended\<close>.\<close>

definition is_extended :: "landmark list \<Rightarrow> nat \<Rightarrow> bool" where
  "is_extended hand_landmarks i =
     (let tip = hand_landmarks ! (finger_tips ! i);
          pip = hand_landmarks ! (finger_pips ! i)
      in if i = 0 then
           (let thumb_tip = hand_landmarks ! 4;
                thumb_ip = hand_landmarks ! 3;
                dist_tip_ip = sqrt ((fst thumb_tip - fst thumb_ip)\<^sup>2 +
                                    (snd thumb_tip - snd thumb_ip)\<^sup>2)
            in dist_tip_ip > 0.08)
         else snd tip < snd pip - 0.02)"

fun count_fingers :: "landmark list \<Rightarrow> nat list \<Rightarrow> int \<times> nat list \<Rightarrow> int \<times> nat list" where
  "count_fingers hand_landmarks [] acc = acc"
| "count_fingers hand_landmarks (i # rest) (finger_count, extended_fingers) =
     (if is_extended hand_landmarks i
      then count_fingers hand_landmarks rest (finger_count + 1, extended_fingers @ [i])
      else count_fingers hand_landmarks rest (finger_count, extended_fingers))"

text \<open>
  \<open>detect_fingers_mediapipe\<close> on a frame of shape \<open>(h, w)\<close>. Every landmark index the
  body reads is at most 20; on a shorter list the read raises IndexError, which the
  \<open>except\<close> clause turns into the no-hand result, as it does when inference raises.
\<close>

definition detect_fingers_mediapipe ::
  "nat \<times> nat \<Rightarrow> inference \<Rightarrow> int option \<times> int option \<times> int \<times> nat list" where
  "detect_fingers_mediapipe frame_shape results =
     (case frame_shape of (h, w) \<Rightarrow>
       (case results of
          Raises \<Rightarrow> (None, None, 0, [])
        | Detected [] \<Rightarrow> (None, None, 0, [])
        | Detected (hand_landmarks # _) \<Rightarrow>
            if length hand_landmarks \<le> 20 then (None, None, 0, [])
            else
              (let index_tip = hand_landmarks ! 8;
                   hand_x = py_int (fst index_tip * real w);
                   hand_y = py_int (snd index_tip * real h);
                   (finger_count, extended_fingers) =
                      count_fingers hand_landmarks [0..<5] (0, [])
               in (Some hand_x, Some hand_y, finger_count, extended_fingers))))"

text \<open>
  The extension tests in the words of the specification, on MediaPipe's landmark
  numbering (thumb tip 4 and its neighbour 3; finger \<open>f = 1..4\<close> has tip \<open>4f + 4\<close>
  and second joint \<open>4f + 2\<close>).
\<close>

definition extended_spec :: "landmark list \<Rightarrow> nat \<Rightarrow> bool" where
  "extended_spec lm f =
     (if f = 0
      then sqrt ((fst (lm ! 4) - fst (lm ! 3))\<^sup>2 + (snd (lm ! 4) - snd (lm ! 3))\<^sup>2) > 0.08
      else snd (lm ! (4 * f + 4)) < snd (lm ! (4 * f + 2)) - 0.02)"

section \<open>One iteration of the loop of run\<close>

text \<open>What the camera and the tracker hand to one iteration: whether
  \<open>self.cap and self.cap.isOpened()\<close> holds, the \<open>ret\<close> flag and the shape of the frame
  that \<open>cap.read()\<close> returns, and the outcome of inference on the frame.\<close>

record camera =
  cap_opened :: bool
  ret :: bool
  frame_shape :: "nat \<times> nat"
  results :: inference

text \<open>Python truthiness of a coordinate that is \<open>None\<close> or an int.\<close>

definition truthy :: "int option \<Rightarrow> bool" where
  "truthy v = (case v of None \<Rightarrow> False | Some n \<Rightarrow> n \<noteq> 0)"

text \<open>The camera read failed: the iteration switches to mouse mode and ends at
  \<open>continue\<close>.\<close>

definition read_failed :: "camera \<Rightarrow> board \<Rightarrow> bool" where
  "read_failed cam s \<longleftrightarrow> \<not> mouse_mode s \<and> cap_opened cam \<and> \<not> ret cam"

text \<open>\<open>h, w = frame.shape[:2]\<close>: the camera frame, or the blank frame of the screen's
  size.\<close>

definition frame_size :: "camera \<Rightarrow> board \<Rightarrow> nat \<times> nat" where
  "frame_size cam s =
     (if \<not> mouse_mode s \<and> cap_opened cam then frame_shape cam
      else (SCREEN_HEIGHT s, SCREEN_WIDTH s))"

text \<open>"Resize canvas if needed".\<close>

definition resize_canvas :: "nat \<times> nat \<Rightarrow> board \<Rightarrow> board" where
  "resize_canvas hw s =
     (case hw of (h, w) \<Rightarrow> if shape (canvas s) \<noteq> (h, w) then init_canvas w h s else s)"

text \<open>"Hand detection".\<close>

definition hand_detection ::
  "camera \<Rightarrow> board \<Rightarrow> int option \<times> int option \<times> int \<times> nat list" where
  "hand_detection cam s =
     (if \<not> mouse_mode s \<and> hands s
      then detect_fingers_mediapipe (frame_size cam s) (results cam)
      else (None, None, 0, []))"

text \<open>"Detect gesture changes and reset points".\<close>

definition detect_gesture_change :: "int \<Rightarrow> board \<Rightarrow> board" where
  "detect_gesture_change finger_count s =
     (if finger_count \<noteq> last_finger_count s
      then (reset_last_points s)\<lparr>last_finger_count := finger_count\<rparr>
      else s)"

text \<open>"Handle gestures based on finger count".\<close>

definition handle_gestures :: "int option \<Rightarrow> int option \<Rightarrow> int \<Rightarrow> board \<Rightarrow> board" where
  "handle_gestures hand_x hand_y finger_count s =
     (if truthy hand_x \<and> truthy hand_y \<and> \<not> mouse_mode s then
        (case (hand_x, hand_y) of
           (Some x, Some y) \<Rightarrow>
             (let s1 = s\<lparr>hand_pos := (x, y)\<rparr>
              in if finger_count = FINGERS_FOR_DRAW s1 then
                   (if drawing_mode s1 then draw_on_canvas x y ''draw'' s1 else s1)
                 else if finger_count \<ge> FINGERS_FOR_ERASE s1 then
                   draw_on_canvas x y ''erase'' s1
                 else reset_last_points s1)
         | _ \<Rightarrow> s)
      else s)"

text \<open>From \<open>h, w = frame.shape[:2]\<close> to the canvas resize: the screen dimensions follow
  the frame, and the canvas is reinitialised when its shape is not the frame's.\<close>

definition prepare_frame :: "camera \<Rightarrow> board \<Rightarrow> board" where
  "prepare_frame cam s =
     (case frame_size cam s of (h, w) \<Rightarrow>
        resize_canvas (h, w) (s\<lparr>SCREEN_WIDTH := w, SCREEN_HEIGHT := h\<rparr>))"

text \<open>The loop body from the camera read to the end of the gesture logic. Blending,
  the UI panel, the FPS counter and the display do not touch the state kept here.\<close>

definition run_frame :: "camera \<Rightarrow> board \<Rightarrow> board" where
  "run_frame cam s =
     (if read_failed cam s then s\<lparr>mouse_mode := True\<rparr>
      else
        (let s2 = prepare_frame cam s
         in (case hand_detection cam s2 of (hand_x, hand_y, finger_count, extended) \<Rightarrow>
               (let s3 = detect_gesture_change finger_count s2
                in handle_gestures hand_x hand_y finger_count s3))))"

text \<open>\<open>list.index\<close> on a list that holds the value.\<close>

fun index_of :: "'a list \<Rightarrow> 'a \<Rightarrow> nat" where
  "index_of [] v = 0"
| "index_of (x # xs) v = (if x = v then 0 else Suc (index_of xs v))"

text \<open>The keyboard branch at the end of the loop body, on \<open>key = cv2.waitKey(1) & 0xFF\<close>.
  ESC (27) leaves the loop; \<open>f\<close> (102) and \<open>p\<close> (112) change nothing kept here; \<open>r\<close>
  clears the canvas at the size of the current frame.\<close>

definition handle_key :: "nat \<Rightarrow> board \<Rightarrow> board" where
  "handle_key key s =
     (if key = 27 then s
      else if key = 32 then reset_last_points (s\<lparr>drawing_mode := \<not> drawing_mode s\<rparr>)
      else if key = 99 then
        (let current_idx = (if current_color s \<in> set (colors s)
                            then index_of (colors s) (current_color s) else 0)
         in s\<lparr>current_color := colors s ! ((current_idx + 1) mod length (colors s))\<rparr>)
      else if key = 115 then
        (let sizes = [5, 8, 12, 20, 30, 50];
             current_idx = (if brush_size s \<in> set sizes
                            then index_of sizes (brush_size s) else 0)
         in s\<lparr>brush_size := sizes ! ((current_idx + 1) mod length sizes)\<rparr>)
      else if key = 102 then s
      else if key = 112 then s
      else if key = 114 then
        reset_last_points (init_canvas (SCREEN_WIDTH s) (SCREEN_HEIGHT s) s)
      else s)"

text \<open>OpenCV's mouse event codes and button flag.\<close>

definition EVENT_MOUSEMOVE :: int where "EVENT_MOUSEMOVE = 0"
definition EVENT_LBUTTONDOWN :: int where "EVENT_LBUTTONDOWN = 1"
definition EVENT_LBUTTONUP :: int where "EVENT_LBUTTONUP = 4"
definition EVENT_FLAG_LBUTTON :: int where "EVENT_FLAG_LBUTTON = 1"

definition handle_mouse :: "int \<Rightarrow> int \<Rightarrow> int \<Rightarrow> int \<Rightarrow> board \<Rightarrow> board" where
  "handle_mouse event x y flags s =
     (if event = EVENT_MOUSEMOVE then
        (let s1 = s\<lparr>hand_pos := (x, y)\<rparr>
         in if flags AND EVENT_FLAG_LBUTTON \<noteq> 0
            then draw_on_canvas x y (if drawing_mode s1 then ''draw'' else ''erase'') s1
            else s1)
      else if event = EVENT_LBUTTONDOWN then reset_last_points (s\<lparr>is_drawing := True\<rparr>)
      else if event = EVENT_LBUTTONUP then reset_last_points (s\<lparr>is_drawing := False\<rparr>)
      else s)"

section \<open>Construction and the reachable states\<close>

text \<open>
  \<open>__init__\<close>. \<open>init_camera\<close> runs first and may set \<open>mouse_mode\<close>, but the later
  assignment \<open>self.mouse_mode = False\<close> overwrites it, so every board starts with
  \<open>mouse_mode\<close> false. The canvas is \<open>None\<close> until \<open>init_canvas\<close> runs; the empty
  canvas stands for it.
\<close>

definition new_board :: board where
  "new_board =
     init_canvas 1920 1080
       \<lparr>FINGERS_FOR_DRAW = 2, FINGERS_FOR_ERASE = 4,
        SCREEN_WIDTH = 1920, SCREEN_HEIGHT = 1080,
        drawing_mode = True, current_color = (0, 255, 0),
        brush_size = 8, eraser_size = 40,
        canvas = \<lparr>shape = (0, 0), pixels = [], strokes = []\<rparr>,
        colors = [(0, 0, 255), (0, 255, 0), (255, 0, 0), (0, 255, 255),
                  (255, 0, 255), (255, 255, 0), (255, 255, 255), (0, 0, 0)],
        hand_pos = (0, 0), is_drawing = False,
        last_draw_point = None, last_erase_point = None,
        mouse_mode = False,
        last_finger_count = 0, hands = False, mouse_callback = False\<rparr>"

text \<open>The prologue of \<open>run\<close>: \<open>init_hand_tracking\<close> gives a tracker or \<open>None\<close>, the
  mouse callback is registered when \<open>mouse_mode\<close> holds, and \<open>last_finger_count\<close>
  starts at 0.\<close>

definition run_start :: "bool \<Rightarrow> board \<Rightarrow> board" where
  "run_start tracker s =
     s\<lparr>hands := tracker, mouse_callback := mouse_mode s, last_finger_count := 0\<rparr>"

text \<open>
  A sample hand for concrete frames: every joint sits at \<open>p\<close>, except that the second
  joints of the first \<open>k\<close> fingers after the thumb lie a tenth of the frame height
  lower, so exactly those \<open>k\<close> fingers are extended and the index fingertip is \<open>p\<close>.
\<close>

definition hand_pose :: "nat \<Rightarrow> landmark \<Rightarrow> landmark list" where
  "hand_pose k p =
     (let q = (fst p, snd p + 1 / 10);
          r = (\<lambda>f. if f \<le> k then q else p)
      in [p, p, p, p, p, p, r 1, p, p, p, r 2, p, p, p, r 3, p, p, p, r 4, p, p])"

text \<open>Sample cameras for concrete frames: an opened camera that delivers a frame of
  480 by 640, or of 720 by 1280, on which the tracker finds the given hands.\<close>

definition webcam :: "landmark list list \<Rightarrow> camera" where
  "webcam found =
     \<lparr>cap_opened = True, ret = True, frame_shape = (480, 640), results = Detected found\<rparr>"

definition hd_webcam :: "landmark list list \<Rightarrow> camera" where
  "hd_webcam found =
     \<lparr>cap_opened = True, ret = True, frame_shape = (720, 1280), results = Detected found\<rparr>"

text \<open>The states the loop of \<open>run\<close> passes through: after the prologue, after the
  gesture logic of an iteration, after its key, and after a mouse event when the
  callback is registered.\<close>

inductive reachable :: "board \<Rightarrow> bool" where
  start: "reachable (run_start tracker new_board)"
| frame: "reachable s \<Longrightarrow> reachable (run_frame cam s)"
| key: "reachable s \<Longrightarrow> reachable (handle_key k s)"
| mouse: "reachable s \<Longrightarrow> mouse_callback s \<Longrightarrow> reachable (handle_mouse event x y flags s)"

text \<open>
  What ties the two stroke slots to the loop's \<open>last_finger_count\<close> with the thresholds
  of the source (2 and 4): a draw slot is only ever present while the last processed
  count is the draw count and the base mode is Write, an erase slot only while the last
  count reaches the erase threshold, and no mouse callback is registered.
\<close>

definition slots_consistent :: "board \<Rightarrow> bool" where
  "slots_consistent s \<longleftrightarrow>
     FINGERS_FOR_DRAW s = 2 \<and> FINGERS_FOR_ERASE s = 4 \<and> \<not> mouse_callback s
     \<and> (last_draw_point s = None \<or> last_finger_count s = 2 \<and> drawing_mode s)
     \<and> (last_erase_point s = None \<or> 4 \<le> last_finger_count s)"

section \<open>The jump test\<close>

lemma sqrt_less_100: "sqrt x < 100 \<longleftrightarrow> x < 10000"
proof -
  have "sqrt x < sqrt (100\<^sup>2) \<longleftrightarrow> x < 100\<^sup>2"
    by (rule real_sqrt_less_iff)
  moreover have "sqrt ((100::real)\<^sup>2) = 100"
    by simp
  ultimately show ?thesis
    by simp
qed

lemma sqrt_greater_100: "100 < sqrt x \<longleftrightarrow> 10000 < x"
proof -
  have "sqrt (100\<^sup>2) < sqrt x \<longleftrightarrow> 100\<^sup>2 < x"
    by (rule real_sqrt_less_iff)
  moreover have "sqrt ((100::real)\<^sup>2) = 100"
    by simp
  ultimately show ?thesis
    by simp
qed

lemma distance_less_100:
  "distance (x1, y1) (x2, y2) < 100 \<longleftrightarrow> (x2 - x1)\<^sup>2 + (y2 - y1)\<^sup>2 < 10000"
proof -
  have "real_of_int d < 10000 \<longleftrightarrow> d < 10000" for d
    by linarith
  then show ?thesis
    by (simp only: distance_def prod.case sqrt_less_100)
qed

section \<open>Facts about the stages\<close>

lemma canvas_init_canvas:
  "canvas (init_canvas W H s) =
     \<lparr>shape = (H, W), pixels = fill background (zeros H W), strokes = []\<rparr>"
  by (simp add: init_canvas_def)

lemma fill_zeros: "fill background (zeros H W) = replicate H (replicate W (20, 20, 20))"
  by (simp add: fill_def zeros_def background_def)

lemma run_frame_stages:
  "\<not> read_failed cam s \<Longrightarrow>
   run_frame cam s =
     (case hand_detection cam (prepare_frame cam s) of (hand_x, hand_y, finger_count, extended) \<Rightarrow>
        handle_gestures hand_x hand_y finger_count
          (detect_gesture_change finger_count (prepare_frame cam s)))"
  by (simp add: run_frame_def Let_def)

lemma prepare_frame_resizes:
  "shape (canvas s) \<noteq> frame_size cam s \<Longrightarrow>
   canvas (prepare_frame cam s) =
     canvas (init_canvas (snd (frame_size cam s)) (fst (frame_size cam s)) s)"
  by (cases "frame_size cam s") (simp add: prepare_frame_def resize_canvas_def canvas_init_canvas)

lemma detect_no_hand: "detect_fingers_mediapipe hw (Detected []) = (None, None, 0, [])"
  by (cases hw) (simp add: detect_fingers_mediapipe_def)

lemma detect_raises: "detect_fingers_mediapipe hw Raises = (None, None, 0, [])"
  by (cases hw) (simp add: detect_fingers_mediapipe_def)

lemma handle_gestures_absent: "handle_gestures None None fc s = s"
  by (simp add: handle_gestures_def truthy_def)

lemma canvas_detect_gesture_change: "canvas (detect_gesture_change fc s) = canvas s"
  by (simp add: detect_gesture_change_def reset_last_points_def)

lemma count_fingers_filter:
  "count_fingers lm fs (c, ext) =
     (c + int (length (filter (is_extended lm) fs)), ext @ filter (is_extended lm) fs)"
  by (induction fs arbitrary: c ext) simp_all

lemma five_fingers: "[0..<5] = [0, 1, 2, 3, 4]"
  by (simp add: upt_rec)

lemma is_extended_spec: "f < 5 \<Longrightarrow> is_extended lm f = extended_spec lm f"
proof -
  assume "f < 5"
  then consider "f = 0" | "f = 1" | "f = 2" | "f = 3" | "f = 4"
    by linarith
  then show ?thesis
    by cases (simp_all add: is_extended_def extended_spec_def finger_tips_def finger_pips_def Let_def)
qed

lemma filter_extended_spec:
  "filter (is_extended lm) [0..<5] = filter (extended_spec lm) [0..<5]"
  by (rule filter_cong) (simp_all add: is_extended_spec)

lemma length_hand_pose: "length (hand_pose k p) = 21"
  by (simp add: hand_pose_def Let_def)

lemma detect_hand_pose_2:
  "detect_fingers_mediapipe (480, 640) (Detected [hand_pose 2 (x, y)]) =
     (Some (py_int (x * 640)), Some (py_int (y * 480)), 2, [1, 2])"
  by (simp add: detect_fingers_mediapipe_def hand_pose_def five_fingers is_extended_def
        finger_tips_def finger_pips_def Let_def)

section \<open>The constructed board\<close>

lemma new_board_fields:
  "FINGERS_FOR_DRAW new_board = 2" "FINGERS_FOR_ERASE new_board = 4"
  "drawing_mode new_board" "\<not> mouse_mode new_board"
  "last_draw_point new_board = None" "last_erase_point new_board = None"
  "strokes (canvas new_board) = []" "shape (canvas new_board) = (1080, 1920)"
  "brush_size new_board = 8" "eraser_size new_board = 40"
  "current_color new_board = (0, 255, 0)"
  by (simp_all add: new_board_def init_canvas_def)

section \<open>Evaluating concrete frames\<close>

lemma detect_hand_pose_3:
  "detect_fingers_mediapipe (480, 640) (Detected [hand_pose 3 (x, y)]) =
     (Some (py_int (x * 640)), Some (py_int (y * 480)), 3, [1, 2, 3])"
  by (simp add: detect_fingers_mediapipe_def hand_pose_def five_fingers is_extended_def
        finger_tips_def finger_pips_def Let_def)

lemma detect_hand_pose_4:
  "detect_fingers_mediapipe (480, 640) (Detected [hand_pose 4 (x, y)]) =
     (Some (py_int (x * 640)), Some (py_int (y * 480)), 4, [1, 2, 3, 4])"
  by (simp add: detect_fingers_mediapipe_def hand_pose_def five_fingers is_extended_def
        finger_tips_def finger_pips_def Let_def)

lemmas frame_eval =
  run_frame_def read_failed_def prepare_frame_def frame_size_def resize_canvas_def
  hand_detection_def detect_gesture_change_def handle_gestures_def truthy_def
  draw_on_canvas_def cv2_circle_def cv2_line_def reset_last_points_def init_canvas_def
  webcam_def run_start_def new_board_def Let_def py_int_def distance_def sqrt_less_100
  detect_hand_pose_2 detect_hand_pose_3 detect_hand_pose_4 detect_no_hand

lemma detect_hand_pose_3_hd:
  "detect_fingers_mediapipe (720, 1280) (Detected [hand_pose 3 (x, y)]) =
     (Some (py_int (x * 1280)), Some (py_int (y * 720)), 3, [1, 2, 3])"
  by (simp add: detect_fingers_mediapipe_def hand_pose_def five_fingers is_extended_def
        finger_tips_def finger_pips_def Let_def)

lemmas frame_eval_hd = frame_eval hd_webcam_def detect_hand_pose_3_hd

lemma hand_detection_none:
  "results cam = Detected [] \<or> results cam = Raises \<Longrightarrow> hand_detection cam s = (None, None, 0, [])"
  by (auto simp: hand_detection_def detect_no_hand detect_raises)

section \<open>The slot invariant of the reachable states\<close>

lemma prepare_frame_fields:
  "FINGERS_FOR_DRAW (prepare_frame cam s) = FINGERS_FOR_DRAW s"
  "FINGERS_FOR_ERASE (prepare_frame cam s) = FINGERS_FOR_ERASE s"
  "mouse_callback (prepare_frame cam s) = mouse_callback s"
  "mouse_mode (prepare_frame cam s) = mouse_mode s"
  "hands (prepare_frame cam s) = hands s"
  "drawing_mode (prepare_frame cam s) = drawing_mode s"
  "last_finger_count (prepare_frame cam s) = last_finger_count s"
  "last_draw_point (prepare_frame cam s) = last_draw_point s"
  "last_erase_point (prepare_frame cam s) = last_erase_point s"
  "brush_size (prepare_frame cam s) = brush_size s"
  "eraser_size (prepare_frame cam s) = eraser_size s"
  "current_color (prepare_frame cam s) = current_color s"
  by (cases "frame_size cam s"; simp add: prepare_frame_def resize_canvas_def init_canvas_def)+

lemma slots_consistent_prepare_frame:
  "slots_consistent (prepare_frame cam s) = slots_consistent s"
  by (simp add: slots_consistent_def prepare_frame_fields)

lemma slots_consistent_detect_gesture_change:
  "slots_consistent s \<Longrightarrow> slots_consistent (detect_gesture_change fc s)"
  by (simp add: slots_consistent_def detect_gesture_change_def reset_last_points_def)

lemma handle_gestures_usable:
  "hx \<noteq> 0 \<Longrightarrow> hy \<noteq> 0 \<Longrightarrow> \<not> mouse_mode s \<Longrightarrow>
   handle_gestures (Some hx) (Some hy) fc s =
     (if fc = FINGERS_FOR_DRAW s then
        (if drawing_mode s then draw_on_canvas hx hy ''draw'' (s\<lparr>hand_pos := (hx, hy)\<rparr>)
         else s\<lparr>hand_pos := (hx, hy)\<rparr>)
      else if FINGERS_FOR_ERASE s \<le> fc then draw_on_canvas hx hy ''erase'' (s\<lparr>hand_pos := (hx, hy)\<rparr>)
      else reset_last_points (s\<lparr>hand_pos := (hx, hy)\<rparr>))"
  by (simp add: handle_gestures_def truthy_def Let_def)

lemma handle_gestures_unusable:
  "\<not> (truthy hx \<and> truthy hy \<and> \<not> mouse_mode s) \<Longrightarrow> handle_gestures hx hy fc s = s"
  by (auto simp: handle_gestures_def)

lemma draw_fields:
  "FINGERS_FOR_DRAW (draw_on_canvas x y ''draw'' s) = FINGERS_FOR_DRAW s"
  "FINGERS_FOR_ERASE (draw_on_canvas x y ''draw'' s) = FINGERS_FOR_ERASE s"
  "mouse_callback (draw_on_canvas x y ''draw'' s) = mouse_callback s"
  "mouse_mode (draw_on_canvas x y ''draw'' s) = mouse_mode s"
  "drawing_mode (draw_on_canvas x y ''draw'' s) = drawing_mode s"
  "last_finger_count (draw_on_canvas x y ''draw'' s) = last_finger_count s"
  "last_draw_point (draw_on_canvas x y ''draw'' s) = Some (x, y)"
  "last_erase_point (draw_on_canvas x y ''draw'' s) = last_erase_point s"
  by (simp_all add: draw_on_canvas_def Let_def split: option.split)

lemma erase_fields:
  "FINGERS_FOR_DRAW (draw_on_canvas x y ''erase'' s) = FINGERS_FOR_DRAW s"
  "FINGERS_FOR_ERASE (draw_on_canvas x y ''erase'' s) = FINGERS_FOR_ERASE s"
  "mouse_callback (draw_on_canvas x y ''erase'' s) = mouse_callback s"
  "mouse_mode (draw_on_canvas x y ''erase'' s) = mouse_mode s"
  "drawing_mode (draw_on_canvas x y ''erase'' s) = drawing_mode s"
  "last_finger_count (draw_on_canvas x y ''erase'' s) = last_finger_count s"
  "last_erase_point (draw_on_canvas x y ''erase'' s) = Some (x, y)"
  "last_draw_point (draw_on_canvas x y ''erase'' s) = last_draw_point s"
  by (simp_all add: draw_on_canvas_def Let_def split: option.split)

lemma slots_after_gesture_change:
  "slots_consistent s \<Longrightarrow>
   (fc \<noteq> 2 \<or> \<not> drawing_mode s \<longrightarrow> last_draw_point (detect_gesture_change fc s) = None)
   \<and> (fc < 4 \<longrightarrow> last_erase_point (detect_gesture_change fc s) = None)"
  by (auto simp: slots_consistent_def detect_gesture_change_def reset_last_points_def)

lemma gesture_change_fields:
  "FINGERS_FOR_DRAW (detect_gesture_change fc s) = FINGERS_FOR_DRAW s"
  "FINGERS_FOR_ERASE (detect_gesture_change fc s) = FINGERS_FOR_ERASE s"
  "mouse_callback (detect_gesture_change fc s) = mouse_callback s"
  "mouse_mode (detect_gesture_change fc s) = mouse_mode s"
  "drawing_mode (detect_gesture_change fc s) = drawing_mode s"
  "last_finger_count (detect_gesture_change fc s) = fc"
  "brush_size (detect_gesture_change fc s) = brush_size s"
  "eraser_size (detect_gesture_change fc s) = eraser_size s"
  "current_color (detect_gesture_change fc s) = current_color s"
  by (simp_all add: detect_gesture_change_def reset_last_points_def)

lemma slots_consistent_handle_gestures:
  assumes "slots_consistent s" "last_finger_count s = fc"
  shows "slots_consistent (handle_gestures hx hy fc s)"
proof (cases "truthy hx \<and> truthy hy \<and> \<not> mouse_mode s")
  case False
  then show ?thesis
    using assms by (simp add: handle_gestures_unusable)
next
  case True
  then obtain x y where xy: "hx = Some x" "hy = Some y" "x \<noteq> 0" "y \<noteq> 0" "\<not> mouse_mode s"
    by (auto simp: truthy_def split: option.splits)
  show ?thesis
    using assms unfolding xy(1,2) handle_gestures_usable [OF xy(3,4,5)]
    by (auto simp: slots_consistent_def draw_fields erase_fields reset_last_points_def)
qed

lemma slots_consistent_run_frame:
  assumes "slots_consistent s"
  shows "slots_consistent (run_frame cam s)"
proof (cases "read_failed cam s")
  case True
  then show ?thesis
    using assms by (simp add: run_frame_def slots_consistent_def)
next
  case False
  obtain hx hy fc ext where d: "hand_detection cam (prepare_frame cam s) = (hx, hy, fc, ext)"
    by (cases "hand_detection cam (prepare_frame cam s)") auto
  have "slots_consistent (detect_gesture_change fc (prepare_frame cam s))"
    using assms by (simp add: slots_consistent_detect_gesture_change slots_consistent_prepare_frame)
  then have "slots_consistent (handle_gestures hx hy fc (detect_gesture_change fc (prepare_frame cam s)))"
    by (rule slots_consistent_handle_gestures) (simp add: gesture_change_fields)
  then show ?thesis
    by (simp add: run_frame_stages [OF False] d)
qed

lemma slots_consistent_handle_key:
  "slots_consistent s \<Longrightarrow> slots_consistent (handle_key k s)"
  by (simp add: slots_consistent_def handle_key_def reset_last_points_def init_canvas_def Let_def)

lemma reachable_slots_consistent: "reachable s \<Longrightarrow> slots_consistent s"
proof (induction rule: reachable.induct)
  case (start tracker)
  show ?case
    by (simp add: slots_consistent_def run_start_def new_board_def init_canvas_def)
next
  case (frame s cam)
  then show ?case by (simp add: slots_consistent_run_frame)
next
  case (key s k)
  then show ?case by (simp add: slots_consistent_handle_key)
next
  case (mouse s event x y flags)
  then show ?case by (simp add: slots_consistent_def)
qed

section \<open>Strokes and the finger count across stages\<close>

lemma hand_detection_some:
  "hand_detection cam s = (Some x, hy, fc, ext) \<Longrightarrow> \<not> mouse_mode s"
  by (auto simp: hand_detection_def split: if_splits)

lemma draw_strokes:
  "strokes (canvas (draw_on_canvas x y ''draw'' s)) =
     strokes (canvas s) @ Circle (x, y) (brush_size s) (current_color s) #
       (case last_draw_point s of
          None \<Rightarrow> []
        | Some q \<Rightarrow> if distance q (x, y) < 100
                    then [Line q (x, y) (current_color s) (brush_size s * 2)] else [])"
  by (simp add: draw_on_canvas_def cv2_circle_def cv2_line_def Let_def split: option.split)

lemma erase_strokes:
  "strokes (canvas (draw_on_canvas x y ''erase'' s)) =
     strokes (canvas s) @ Circle (x, y) (eraser_size s) (20, 20, 20) #
       (case last_erase_point s of
          None \<Rightarrow> []
        | Some q \<Rightarrow> if distance q (x, y) < 100
                    then [Line q (x, y) (20, 20, 20) (eraser_size s)] else [])"
  by (simp add: draw_on_canvas_def cv2_circle_def cv2_line_def Let_def split: option.split)

lemma last_finger_count_handle_gestures:
  "last_finger_count (handle_gestures hx hy fc s) = last_finger_count s"
  by (simp add: handle_gestures_def Let_def draw_fields erase_fields reset_last_points_def
        split: option.split)

lemma last_finger_count_run_frame:
  "\<not> read_failed cam s \<Longrightarrow> hand_detection cam (prepare_frame cam s) = (hx, hy, fc, ext) \<Longrightarrow>
   last_finger_count (run_frame cam s) = fc"
  by (simp add: run_frame_stages last_finger_count_handle_gestures gesture_change_fields)

lemma last_finger_count_handle_key:
  "last_finger_count (handle_key k s) = last_finger_count s"
  by (simp add: handle_key_def reset_last_points_def init_canvas_def Let_def)

lemma handle_gestures_idle:
  assumes "last_draw_point s = None" and "last_erase_point s = None"
    and "fc \<noteq> FINGERS_FOR_DRAW s \<or> \<not> drawing_mode s" and "fc < FINGERS_FOR_ERASE s"
  shows "canvas (handle_gestures hx hy fc s) = canvas s
         \<and> last_draw_point (handle_gestures hx hy fc s) = None
         \<and> last_erase_point (handle_gestures hx hy fc s) = None"
  using assms
  by (auto simp: handle_gestures_def Let_def reset_last_points_def split: option.split)

lemma handle_gestures_other_slot:
  "(fc \<noteq> FINGERS_FOR_DRAW s \<or> \<not> drawing_mode s \<longrightarrow> last_draw_point s = None \<longrightarrow>
      last_draw_point (handle_gestures hx hy fc s) = None)
   \<and> (fc < FINGERS_FOR_ERASE s \<longrightarrow> last_erase_point s = None \<longrightarrow>
      last_erase_point (handle_gestures hx hy fc s) = None)"
  by (auto simp: handle_gestures_def Let_def reset_last_points_def draw_fields erase_fields
        split: option.split)

lemma prepare_frame_keeps:
  "shape (canvas s) = frame_size cam s \<Longrightarrow> canvas (prepare_frame cam s) = canvas s"
  by (cases "frame_size cam s") (simp add: prepare_frame_def resize_canvas_def)

lemma draw_jump_as_absent:
  "last_draw_point t = Some q \<Longrightarrow> \<not> distance q (x, y) < 100 \<Longrightarrow>
   draw_on_canvas x y ''draw'' t = draw_on_canvas x y ''draw'' (t\<lparr>last_draw_point := None\<rparr>)"
  by (simp add: draw_on_canvas_def Let_def)

lemma erase_jump_as_absent:
  "last_erase_point t = Some q \<Longrightarrow> \<not> distance q (x, y) < 100 \<Longrightarrow>
   draw_on_canvas x y ''erase'' t = draw_on_canvas x y ''erase'' (t\<lparr>last_erase_point := None\<rparr>)"
  by (simp add: draw_on_canvas_def Let_def)

section \<open>The renderer in drawing mode\<close>

text \<open>
  C1. In drawing mode the renderer always stamps a filled disk of radius \<open>brush_size\<close>
  in \<open>current_color\<close> at the cursor. When \<open>last_draw_point\<close> is present, a line of
  width \<open>2 * brush_size\<close> from it to the cursor follows exactly when the Euclidean
  distance between the two is strictly below 100; when it is absent, only the disk is
  stamped. The pixel array and the erase slot are untouched, and afterwards
  \<open>last_draw_point\<close> is the cursor.
\<close>

theorem draw_stamps_disk_and_connects:
  "(last_draw_point s = None \<longrightarrow>
      strokes (canvas (draw_on_canvas x y ''draw'' s)) =
        strokes (canvas s) @ [Circle (x, y) (brush_size s) (current_color s)])
   \<and> (\<forall>x1 y1. last_draw_point s = Some (x1, y1) \<longrightarrow>
        strokes (canvas (draw_on_canvas x y ''draw'' s)) =
          strokes (canvas s) @ [Circle (x, y) (brush_size s) (current_color s)] @
            (if sqrt (real_of_int ((x - x1)\<^sup>2 + (y - y1)\<^sup>2)) < 100
             then [Line (x1, y1) (x, y) (current_color s) (2 * brush_size s)] else []))
   \<and> shape (canvas (draw_on_canvas x y ''draw'' s)) = shape (canvas s)
   \<and> pixels (canvas (draw_on_canvas x y ''draw'' s)) = pixels (canvas s)
   \<and> last_draw_point (draw_on_canvas x y ''draw'' s) = Some (x, y)
   \<and> last_erase_point (draw_on_canvas x y ''draw'' s) = last_erase_point s"
  by (auto simp: draw_on_canvas_def cv2_circle_def cv2_line_def distance_def Let_def
           split: option.splits)

theorem draw_stamps_disk_and_connects_witness:
  "strokes (canvas (draw_on_canvas 200 200 ''draw'' (new_board\<lparr>last_draw_point := Some (0, 0)\<rparr>))) =
     [Circle (200, 200) 8 (0, 255, 0)]
   \<and> strokes (canvas (draw_on_canvas 15 10 ''draw'' (new_board\<lparr>last_draw_point := Some (10, 10)\<rparr>))) =
     [Circle (15, 10) 8 (0, 255, 0), Line (10, 10) (15, 10) (0, 255, 0) 16]
   \<and> strokes (canvas (draw_on_canvas 15 10 ''draw'' new_board)) = [Circle (15, 10) 8 (0, 255, 0)]
   \<and> last_draw_point (draw_on_canvas 15 10 ''draw'' (new_board\<lparr>last_draw_point := Some (10, 10)\<rparr>)) = Some (15, 10)"
  using draw_stamps_disk_and_connects [of "new_board\<lparr>last_draw_point := Some (0, 0)\<rparr>" 200 200]
        draw_stamps_disk_and_connects [of "new_board\<lparr>last_draw_point := Some (10, 10)\<rparr>" 15 10]
        draw_stamps_disk_and_connects [of new_board 15 10]
  by (simp add: new_board_def init_canvas_def sqrt_less_100)

section \<open>The renderer in erasing mode\<close>

text \<open>
  C6. Erasing is claimed to be the drawing algorithm with the background colour,
  \<open>eraser_size\<close> and the erase slot, so its connecting line would be
  \<open>2 * eraser_size\<close> wide. On the default board, with the erase slot at \<open>(10, 10)\<close>
  and the cursor at \<open>(15, 10)\<close>, the code stamps the disk of radius 40 and strokes a
  line of width 40, which is \<open>eraser_size\<close> and not twice it.
\<close>

theorem erase_line_is_one_radius_wide:
  "strokes (canvas (draw_on_canvas 15 10 ''erase'' (new_board\<lparr>last_erase_point := Some (10, 10)\<rparr>))) =
     [Circle (15, 10) 40 (20, 20, 20), Line (10, 10) (15, 10) (20, 20, 20) 40]
   \<and> eraser_size new_board = 40"
  by (simp add: draw_on_canvas_def cv2_circle_def cv2_line_def distance_def Let_def
        new_board_def init_canvas_def sqrt_less_100)

section \<open>The finger-state classifier\<close>

text \<open>
  C4. For every set of 21 hand landmarks the classifier counts the thumb as extended iff
  the Euclidean distance between its tip (joint 4) and the neighbouring joint (joint 3)
  exceeds 0.08, and each other finger iff its tip's y-coordinate is less than its
  second joint's y-coordinate minus 0.02; the returned count is the number of fingers
  that pass their test, which lies between 0 and 5, and the returned list names them.
\<close>

theorem finger_count_is_number_extended:
  assumes "length lm = 21"
  shows "detect_fingers_mediapipe (h, w) (Detected (lm # others)) =
           (Some (py_int (fst (lm ! 8) * real w)), Some (py_int (snd (lm ! 8) * real h)),
            int (card {f. f < 5 \<and> extended_spec lm f}),
            filter (extended_spec lm) [0..<5])
         \<and> card {f. f < 5 \<and> extended_spec lm f} \<le> 5
         \<and> (extended_spec lm 0 \<longleftrightarrow>
              sqrt ((fst (lm ! 4) - fst (lm ! 3))\<^sup>2 + (snd (lm ! 4) - snd (lm ! 3))\<^sup>2) > 0.08)
         \<and> (extended_spec lm 1 \<longleftrightarrow> snd (lm ! 8) < snd (lm ! 6) - 0.02)
         \<and> (extended_spec lm 2 \<longleftrightarrow> snd (lm ! 12) < snd (lm ! 10) - 0.02)
         \<and> (extended_spec lm 3 \<longleftrightarrow> snd (lm ! 16) < snd (lm ! 14) - 0.02)
         \<and> (extended_spec lm 4 \<longleftrightarrow> snd (lm ! 20) < snd (lm ! 18) - 0.02)"
proof -
  have set_eq: "{f. f < 5 \<and> extended_spec lm f} = set (filter (extended_spec lm) [0..<5])"
    by auto
  have card_eq: "card {f. f < 5 \<and> extended_spec lm f} = length (filter (extended_spec lm) [0..<5])"
    unfolding set_eq by (rule distinct_card) simp
  have "length (filter (extended_spec lm) [0..<5]) \<le> length [0..<5::nat]"
    by (rule length_filter_le)
  then have bound: "card {f. f < 5 \<and> extended_spec lm f} \<le> 5"
    by (simp add: card_eq)
  have run: "detect_fingers_mediapipe (h, w) (Detected (lm # others)) =
           (Some (py_int (fst (lm ! 8) * real w)), Some (py_int (snd (lm ! 8) * real h)),
            int (card {f. f < 5 \<and> extended_spec lm f}),
            filter (extended_spec lm) [0..<5])"
    using assms
    by (simp add: detect_fingers_mediapipe_def count_fingers_filter filter_extended_spec card_eq Let_def)
  show ?thesis
    using run bound by (simp add: extended_spec_def)
qed

theorem finger_count_is_number_extended_witness:
  "length (hand_pose 2 (1 / 64, 1 / 2)) = 21
   \<and> detect_fingers_mediapipe (480, 640) (Detected [hand_pose 2 (1 / 64, 1 / 2)]) =
       (Some 10, Some 240, 2, [1, 2])
   \<and> card {f. f < 5 \<and> extended_spec (hand_pose 2 (1 / 64, 1 / 2)) f} = 2"
proof -
  have len: "length (hand_pose 2 (1 / 64, 1 / 2)) = 21"
    by (rule length_hand_pose)
  have run: "detect_fingers_mediapipe (480, 640) (Detected [hand_pose 2 (1 / 64, 1 / 2)]) =
       (Some 10, Some 240, 2, [1, 2])"
    by (simp add: detect_hand_pose_2 py_int_def)
  show ?thesis
    using finger_count_is_number_extended [OF len, of 480 640 "[]"] len run by simp
qed

section \<open>Canvas initialisation\<close>

text \<open>
  C9. \<open>init_canvas\<close> with width \<open>W\<close> and height \<open>H\<close> yields a canvas of shape
  \<open>(H, W)\<close> whose every pixel is the background colour \<open>(20, 20, 20)\<close> and on which
  nothing is drawn, whatever the canvas held before. The constructor builds the canvas
  with it at 1920 by 1080, and every loop iteration that has a frame whose shape is not
  the canvas's shape reinitialises the canvas at the frame's size before the gesture
  logic runs.
\<close>

theorem init_canvas_fills_background:
  "shape (canvas (init_canvas W H s)) = (H, W)
   \<and> length (pixels (canvas (init_canvas W H s))) = H
   \<and> (\<forall>i<H. length (pixels (canvas (init_canvas W H s)) ! i) = W
        \<and> (\<forall>j<W. pixels (canvas (init_canvas W H s)) ! i ! j = (20, 20, 20)))
   \<and> strokes (canvas (init_canvas W H s)) = []
   \<and> canvas (init_canvas W H s) = canvas (init_canvas W H s')
   \<and> canvas new_board = canvas (init_canvas 1920 1080 s)
   \<and> (\<not> read_failed cam s \<and> shape (canvas s) \<noteq> frame_size cam s \<longrightarrow>
        canvas (prepare_frame cam s) =
          canvas (init_canvas (snd (frame_size cam s)) (fst (frame_size cam s)) s)
        \<and> run_frame cam s =
            (case hand_detection cam (prepare_frame cam s) of (hand_x, hand_y, finger_count, extended) \<Rightarrow>
               handle_gestures hand_x hand_y finger_count
                 (detect_gesture_change finger_count (prepare_frame cam s))))"
proof -
  have "canvas new_board = canvas (init_canvas 1920 1080 s)"
    by (simp add: new_board_def canvas_init_canvas)
  then show ?thesis
    by (simp add: canvas_init_canvas fill_zeros run_frame_stages prepare_frame_resizes)
qed

theorem init_canvas_fills_background_witness:
  "pixels (canvas (init_canvas 3 2 new_board)) ! 1 ! 2 = (20, 20, 20)
   \<and> shape (canvas (init_canvas 3 2 new_board)) = (2, 3)
   \<and> \<not> read_failed (webcam []) (run_start True new_board)
   \<and> shape (canvas (run_start True new_board)) \<noteq> frame_size (webcam []) (run_start True new_board)
   \<and> shape (canvas (run_frame (webcam []) (run_start True new_board))) = (480, 640)"
proof -
  let ?s = "run_start True new_board"
  have a: "\<not> read_failed (webcam []) ?s"
    by (simp add: read_failed_def webcam_def)
  have b: "shape (canvas ?s) \<noteq> frame_size (webcam []) ?s"
    by (simp add: frame_size_def webcam_def run_start_def new_board_def init_canvas_def)
  have c: "frame_size (webcam []) ?s = (480, 640)"
    by (simp add: frame_size_def webcam_def run_start_def new_board_def init_canvas_def)
  have d: "hand_detection (webcam []) (prepare_frame (webcam []) ?s) = (None, None, 0, [])"
    by (simp add: hand_detection_def detect_no_hand webcam_def)
  from init_canvas_fills_background [where W = 3 and H = 2 and s = ?s and cam = "webcam []"] a b
  show ?thesis
    by (simp add: c d handle_gestures_absent canvas_detect_gesture_change canvas_init_canvas)
qed

section \<open>Cursor presence is tested by truthiness\<close>

text \<open>
  C10. When a hand is detected but the cursor's pixel coordinate has \<open>hand_x = 0\<close> or
  \<open>hand_y = 0\<close>, the gesture step leaves the state as it is, exactly as for an absent
  cursor: nothing is drawn or erased and the renderer updates no slot. The whole
  iteration then ends with the state that the gesture-change check produced.
\<close>

theorem zero_coordinate_counts_as_absent:
  assumes "hx = 0 \<or> hy = 0"
  shows "handle_gestures (Some hx) (Some hy) fc s = s
         \<and> handle_gestures (Some hx) (Some hy) fc s = handle_gestures None None fc s
         \<and> (\<not> read_failed cam s \<and> hand_detection cam (prepare_frame cam s) = (Some hx, Some hy, fc, ext) \<longrightarrow>
              run_frame cam s = detect_gesture_change fc (prepare_frame cam s))"
  using assms by (auto simp: handle_gestures_def truthy_def run_frame_def Let_def)

theorem zero_coordinate_counts_as_absent_witness:
  "hand_detection (webcam [hand_pose 2 (0, 1 / 2)])
      (prepare_frame (webcam [hand_pose 2 (0, 1 / 2)]) (run_start True new_board))
     = (Some 0, Some 240, 2, [1, 2])
   \<and> run_frame (webcam [hand_pose 2 (0, 1 / 2)]) (run_start True new_board)
     = detect_gesture_change 2 (prepare_frame (webcam [hand_pose 2 (0, 1 / 2)]) (run_start True new_board))
   \<and> strokes (canvas (run_frame (webcam [hand_pose 2 (0, 1 / 2)]) (run_start True new_board))) = []
   \<and> last_draw_point (run_frame (webcam [hand_pose 2 (0, 1 / 2)]) (run_start True new_board)) = None"
proof -
  let ?s = "run_start True new_board"
  let ?c = "webcam [hand_pose 2 (0, 1 / 2)]"
  have z: "(0::int) = 0 \<or> (240::int) = 0"
    by simp
  have f: "\<not> read_failed ?c ?s"
    by (simp add: read_failed_def webcam_def)
  have d: "hand_detection ?c (prepare_frame ?c ?s) = (Some 0, Some 240, 2, [1, 2])"
    by (simp add: frame_eval)
  from zero_coordinate_counts_as_absent [OF z, of 2 ?s ?c "[1, 2]"] f d
  have run: "run_frame ?c ?s = detect_gesture_change 2 (prepare_frame ?c ?s)"
    by blast
  have "strokes (canvas (detect_gesture_change 2 (prepare_frame ?c ?s))) = []"
    by (simp add: frame_eval)
  moreover have "last_draw_point (detect_gesture_change 2 (prepare_frame ?c ?s)) = None"
    by (simp add: frame_eval)
  ultimately show ?thesis
    using d run by simp
qed

section \<open>Frames without a hand\<close>

text \<open>
  C8, as claimed: on a frame without a hand the canvas is not mutated. After a first
  frame of 480 by 640 that stamps a disk at \<open>(10, 240)\<close>, a frame of 720 by 1280 in
  which no hand is detected leaves a canvas of shape \<open>(720, 1280)\<close> with no stroke on it:
  the frame-size check of the iteration reinitialised the canvas and the disk is gone.
\<close>

theorem no_hand_frame_resizes_canvas_counterexample:
  "reachable (run_frame (webcam [hand_pose 2 (1 / 64, 1 / 2)]) (run_start True new_board))
   \<and> strokes (canvas (run_frame (webcam [hand_pose 2 (1 / 64, 1 / 2)]) (run_start True new_board)))
       = [Circle (10, 240) 8 (0, 255, 0)]
   \<and> shape (canvas (run_frame (webcam [hand_pose 2 (1 / 64, 1 / 2)]) (run_start True new_board)))
       = (480, 640)
   \<and> \<not> read_failed (hd_webcam [])
         (run_frame (webcam [hand_pose 2 (1 / 64, 1 / 2)]) (run_start True new_board))
   \<and> results (hd_webcam []) = Detected []
   \<and> strokes (canvas (run_frame (hd_webcam [])
        (run_frame (webcam [hand_pose 2 (1 / 64, 1 / 2)]) (run_start True new_board)))) = []
   \<and> shape (canvas (run_frame (hd_webcam [])
        (run_frame (webcam [hand_pose 2 (1 / 64, 1 / 2)]) (run_start True new_board)))) = (720, 1280)
   \<and> canvas (run_frame (hd_webcam [])
        (run_frame (webcam [hand_pose 2 (1 / 64, 1 / 2)]) (run_start True new_board)))
       \<noteq> canvas (run_frame (webcam [hand_pose 2 (1 / 64, 1 / 2)]) (run_start True new_board))"
proof -
  let ?s = "run_frame (webcam [hand_pose 2 (1 / 64, 1 / 2)]) (run_start True new_board)"
  have r: "reachable ?s"
    by (rule reachable.frame) (rule reachable.start)
  have a: "strokes (canvas ?s) = [Circle (10, 240) 8 (0, 255, 0)]" "shape (canvas ?s) = (480, 640)"
    by (simp_all add: frame_eval)
  have b: "strokes (canvas (run_frame (hd_webcam []) ?s)) = []"
    "shape (canvas (run_frame (hd_webcam []) ?s)) = (720, 1280)"
    by (simp_all add: frame_eval_hd)
  have "strokes (canvas (run_frame (hd_webcam []) ?s)) \<noteq> strokes (canvas ?s)"
    by (simp add: a b)
  then have c: "canvas (run_frame (hd_webcam []) ?s) \<noteq> canvas ?s"
    by auto
  have d: "\<not> read_failed (hd_webcam []) ?s" "results (hd_webcam []) = Detected []"
    by (simp_all add: read_failed_def hd_webcam_def)
  show ?thesis
    using r a b c d by simp
qed

text \<open>
  C8, amended. If no hand is detected in a frame (or inference fails), the classifier
  returns count 0 and an absent cursor, and the frame is idle, never erasing: from every
  reachable state the renderer neither draws nor erases, so the canvas after the
  iteration is the canvas of the previous state when the frame has the canvas's shape,
  and is otherwise exactly the canvas that \<open>init_canvas\<close> builds at the frame's size;
  both stroke slots are absent when the iteration ends.
\<close>

theorem no_hand_is_idle:
  assumes "reachable s" and "\<not> read_failed cam s"
    and "results cam = Detected [] \<or> results cam = Raises"
  shows "detect_fingers_mediapipe (frame_size cam s) (results cam) = (None, None, 0, [])
         \<and> hand_detection cam (prepare_frame cam s) = (None, None, 0, [])
         \<and> canvas (run_frame cam s) = canvas (prepare_frame cam s)
         \<and> (shape (canvas s) = frame_size cam s \<longrightarrow> canvas (run_frame cam s) = canvas s)
         \<and> (shape (canvas s) \<noteq> frame_size cam s \<longrightarrow>
              canvas (run_frame cam s) =
                canvas (init_canvas (snd (frame_size cam s)) (fst (frame_size cam s)) s))
         \<and> last_draw_point (run_frame cam s) = None
         \<and> last_erase_point (run_frame cam s) = None"
proof -
  have det: "hand_detection cam (prepare_frame cam s) = (None, None, 0, [])"
    using assms(3) by (rule hand_detection_none)
  have run: "run_frame cam s = detect_gesture_change 0 (prepare_frame cam s)"
    by (simp add: run_frame_stages [OF assms(2)] det handle_gestures_absent)
  have "slots_consistent s"
    using assms(1) by (rule reachable_slots_consistent)
  then have "slots_consistent (prepare_frame cam s)"
    by (simp add: slots_consistent_prepare_frame)
  from slots_after_gesture_change [OF this, of 0]
  have slots: "last_draw_point (run_frame cam s) = None \<and> last_erase_point (run_frame cam s) = None"
    by (simp add: run)
  have "detect_fingers_mediapipe (frame_size cam s) (results cam) = (None, None, 0, [])"
    using assms(3) by (auto simp: detect_no_hand detect_raises)
  then show ?thesis
    using det slots
    by (simp add: run canvas_detect_gesture_change prepare_frame_keeps prepare_frame_resizes)
qed

theorem no_hand_is_idle_witness:
  "reachable (run_frame (webcam [hand_pose 2 (1 / 64, 1 / 2)]) (run_start True new_board))
   \<and> last_draw_point (run_frame (webcam [hand_pose 2 (1 / 64, 1 / 2)]) (run_start True new_board))
       = Some (10, 240)
   \<and> \<not> read_failed (webcam []) (run_frame (webcam [hand_pose 2 (1 / 64, 1 / 2)]) (run_start True new_board))
   \<and> results (webcam []) = Detected []
   \<and> strokes (canvas (run_frame (webcam [])
        (run_frame (webcam [hand_pose 2 (1 / 64, 1 / 2)]) (run_start True new_board))))
       = [Circle (10, 240) 8 (0, 255, 0)]
   \<and> last_draw_point (run_frame (webcam [])
        (run_frame (webcam [hand_pose 2 (1 / 64, 1 / 2)]) (run_start True new_board))) = None
   \<and> last_erase_point (run_frame (webcam [])
        (run_frame (webcam [hand_pose 2 (1 / 64, 1 / 2)]) (run_start True new_board))) = None
   \<and> shape (canvas (run_frame (webcam [hand_pose 2 (1 / 64, 1 / 2)]) (run_start True new_board)))
       \<noteq> frame_size (hd_webcam [])
            (run_frame (webcam [hand_pose 2 (1 / 64, 1 / 2)]) (run_start True new_board))
   \<and> canvas (run_frame (hd_webcam [])
        (run_frame (webcam [hand_pose 2 (1 / 64, 1 / 2)]) (run_start True new_board)))
       = \<lparr>shape = (720, 1280), pixels = replicate 720 (replicate 1280 (20, 20, 20)), strokes = []\<rparr>
   \<and> last_draw_point (run_frame (hd_webcam [])
        (run_frame (webcam [hand_pose 2 (1 / 64, 1 / 2)]) (run_start True new_board))) = None"
proof -
  let ?s = "run_frame (webcam [hand_pose 2 (1 / 64, 1 / 2)]) (run_start True new_board)"
  have r: "reachable ?s"
    by (rule reachable.frame) (rule reachable.start)
  have f: "\<not> read_failed (webcam []) ?s" "\<not> read_failed (hd_webcam []) ?s"
    by (simp_all add: read_failed_def webcam_def hd_webcam_def)
  have n: "results (webcam []) = Detected [] \<or> results (webcam []) = Raises"
    "results (hd_webcam []) = Detected [] \<or> results (hd_webcam []) = Raises"
    by (simp_all add: webcam_def hd_webcam_def)
  have before: "last_draw_point ?s = Some (10, 240)"
    by (simp add: frame_eval)
  have shp: "shape (canvas ?s) = frame_size (webcam []) ?s"
    by (simp add: frame_eval)
  have shp': "shape (canvas ?s) \<noteq> frame_size (hd_webcam []) ?s"
    by (simp add: frame_eval_hd)
  have fs: "frame_size (hd_webcam []) ?s = (720, 1280)"
    by (simp add: frame_eval_hd)
  have st: "strokes (canvas ?s) = [Circle (10, 240) 8 (0, 255, 0)]"
    by (simp add: frame_eval)
  have n': "results (webcam []) = Detected []"
    by (simp add: webcam_def)
  note t = no_hand_is_idle [OF r f(1) n(1)]
  note u = no_hand_is_idle [OF r f(2) n(2)]
  have c: "canvas (run_frame (webcam []) ?s) = canvas ?s"
    using t shp by blast
  have d: "last_draw_point (run_frame (webcam []) ?s) = None"
    using t by blast
  have e: "last_erase_point (run_frame (webcam []) ?s) = None"
    using t by blast
  have g: "canvas (run_frame (hd_webcam []) ?s) =
      canvas (init_canvas (snd (frame_size (hd_webcam []) ?s)) (fst (frame_size (hd_webcam []) ?s)) ?s)"
    using u shp' by blast
  have h: "last_draw_point (run_frame (hd_webcam []) ?s) = None"
    using u by blast
  show ?thesis
    using r f(1) n' before st shp'
    by (simp add: c d e g h fs canvas_init_canvas fill_zeros)
qed

section \<open>Finger-count changes reset the slots\<close>

text \<open>
  C2. For every pair of consecutive frames (with any key press in between): the second
  iteration runs its drawing and erasing logic on the state left by the gesture-change
  check; if the second frame's finger count differs from the first frame's, both
  stroke slots are absent in that state, whatever the action mode; if the count is the
  same, the check leaves \<open>last_draw_point\<close> and \<open>last_erase_point\<close> as they were.
\<close>

theorem finger_count_change_resets_slots:
  assumes "\<not> read_failed cam1 s"
    and "hand_detection cam1 (prepare_frame cam1 s) = (hx1, hy1, fc1, ext1)"
    and "s' = handle_key k (run_frame cam1 s)"
    and "\<not> read_failed cam2 s'"
    and "hand_detection cam2 (prepare_frame cam2 s') = (hx2, hy2, fc2, ext2)"
  shows "run_frame cam2 s' =
           handle_gestures hx2 hy2 fc2 (detect_gesture_change fc2 (prepare_frame cam2 s'))
         \<and> (fc2 \<noteq> fc1 \<longrightarrow>
              last_draw_point (detect_gesture_change fc2 (prepare_frame cam2 s')) = None
              \<and> last_erase_point (detect_gesture_change fc2 (prepare_frame cam2 s')) = None)
         \<and> (fc2 = fc1 \<longrightarrow>
              last_draw_point (detect_gesture_change fc2 (prepare_frame cam2 s')) = last_draw_point s'
              \<and> last_erase_point (detect_gesture_change fc2 (prepare_frame cam2 s')) = last_erase_point s')"
proof -
  have "last_finger_count s' = fc1"
    using assms(1,2,3) by (simp add: last_finger_count_handle_key last_finger_count_run_frame)
  then have "last_finger_count (prepare_frame cam2 s') = fc1"
    by (simp add: prepare_frame_fields)
  then show ?thesis
    using assms(4,5)
    by (simp add: run_frame_stages detect_gesture_change_def reset_last_points_def
          prepare_frame_fields)
qed

theorem finger_count_change_resets_slots_witness:
  "last_draw_point (run_frame (webcam [hand_pose 2 (1 / 64, 1 / 2)]) (run_start True new_board))
     = Some (10, 240)
   \<and> last_draw_point (detect_gesture_change 3 (prepare_frame (webcam [hand_pose 3 (1 / 32, 1 / 2)])
        (handle_key 255 (run_frame (webcam [hand_pose 2 (1 / 64, 1 / 2)]) (run_start True new_board)))))
     = None
   \<and> last_draw_point (detect_gesture_change 2 (prepare_frame (webcam [hand_pose 2 (1 / 32, 1 / 2)])
        (handle_key 255 (run_frame (webcam [hand_pose 2 (1 / 64, 1 / 2)]) (run_start True new_board)))))
     = Some (10, 240)"
proof -
  let ?s = "run_start True new_board"
  let ?c1 = "webcam [hand_pose 2 (1 / 64, 1 / 2)]"
  let ?s' = "handle_key 255 (run_frame ?c1 ?s)"
  have k: "handle_key 255 t = t" for t
    by (simp add: handle_key_def)
  have a1: "\<not> read_failed ?c1 ?s"
    by (simp add: read_failed_def webcam_def)
  have a2: "hand_detection ?c1 (prepare_frame ?c1 ?s) = (Some 10, Some 240, 2, [1, 2])"
    by (simp add: frame_eval)
  have a4: "\<not> read_failed c ?s'" if "ret c" for c
    using that by (simp add: read_failed_def)
  have r: "ret (webcam l)" for l
    by (simp add: webcam_def)
  have d3: "hand_detection (webcam [hand_pose 3 (1 / 32, 1 / 2)])
              (prepare_frame (webcam [hand_pose 3 (1 / 32, 1 / 2)]) ?s') = (Some 20, Some 240, 3, [1, 2, 3])"
    unfolding k by (simp add: frame_eval)
  have d2: "hand_detection (webcam [hand_pose 2 (1 / 32, 1 / 2)])
              (prepare_frame (webcam [hand_pose 2 (1 / 32, 1 / 2)]) ?s') = (Some 20, Some 240, 2, [1, 2])"
    unfolding k by (simp add: frame_eval)
  have before: "last_draw_point ?s' = Some (10, 240)"
    unfolding k by (simp add: frame_eval)
  from finger_count_change_resets_slots [OF a1 a2 refl a4 [OF r] d3]
       finger_count_change_resets_slots [OF a1 a2 refl a4 [OF r] d2] before
  show ?thesis
    by (simp add: k)
qed

section \<open>The mode arbiter\<close>

text \<open>
  C3. With the thresholds 2 and 4, a frame with a present cursor and count 2 in Write
  mode is claimed to perform a draw. On the first frame of a session, with two fingers
  extended in Write mode and the index fingertip on the top pixel row (cursor
  \<open>(320, 0)\<close>), the code draws nothing and leaves the draw slot absent, while the
  same hand one pixel lower, at \<open>(320, 1)\<close>, stamps the brush disk.
\<close>

theorem draw_gesture_at_top_edge_is_dropped:
  "hand_detection (webcam [hand_pose 2 (1 / 2, 0)])
      (prepare_frame (webcam [hand_pose 2 (1 / 2, 0)]) (run_start True new_board))
     = (Some 320, Some 0, 2, [1, 2])
   \<and> FINGERS_FOR_DRAW (run_start True new_board) = 2
   \<and> FINGERS_FOR_ERASE (run_start True new_board) = 4
   \<and> drawing_mode (run_start True new_board)
   \<and> strokes (canvas (run_frame (webcam [hand_pose 2 (1 / 2, 0)]) (run_start True new_board))) = []
   \<and> last_draw_point (run_frame (webcam [hand_pose 2 (1 / 2, 0)]) (run_start True new_board)) = None
   \<and> strokes (canvas (run_frame (webcam [hand_pose 2 (1 / 2, 1 / 480)]) (run_start True new_board)))
       = [Circle (320, 1) 8 (0, 255, 0)]"
  by (simp add: frame_eval)

text \<open>
  C5, as claimed: with \<open>FINGERS_FOR_DRAW = FINGERS_FOR_ERASE = 2\<close> a count of 2 always
  erases and never draws. On a board built with that configuration, a first frame with
  two fingers and the cursor at \<open>(320, 240)\<close> in Write mode stamps the brush disk in the
  current colour and sets the draw slot; the erase slot stays absent.
\<close>

theorem tie_goes_to_draw_counterexample:
  "FINGERS_FOR_DRAW (run_start True (new_board\<lparr>FINGERS_FOR_ERASE := 2\<rparr>)) = 2
   \<and> FINGERS_FOR_ERASE (run_start True (new_board\<lparr>FINGERS_FOR_ERASE := 2\<rparr>)) = 2
   \<and> hand_detection (webcam [hand_pose 2 (1 / 2, 1 / 2)])
        (prepare_frame (webcam [hand_pose 2 (1 / 2, 1 / 2)])
           (run_start True (new_board\<lparr>FINGERS_FOR_ERASE := 2\<rparr>)))
       = (Some 320, Some 240, 2, [1, 2])
   \<and> strokes (canvas (run_frame (webcam [hand_pose 2 (1 / 2, 1 / 2)])
        (run_start True (new_board\<lparr>FINGERS_FOR_ERASE := 2\<rparr>))))
       = [Circle (320, 240) 8 (0, 255, 0)]
   \<and> last_draw_point (run_frame (webcam [hand_pose 2 (1 / 2, 1 / 2)])
        (run_start True (new_board\<lparr>FINGERS_FOR_ERASE := 2\<rparr>))) = Some (320, 240)
   \<and> last_erase_point (run_frame (webcam [hand_pose 2 (1 / 2, 1 / 2)])
        (run_start True (new_board\<lparr>FINGERS_FOR_ERASE := 2\<rparr>))) = None"
  by (simp add: frame_eval)

text \<open>
  C5, amended. With \<open>FINGERS_FOR_DRAW = FINGERS_FOR_ERASE = 2\<close>, a frame in Write base
  mode whose count is 2 and whose cursor has both pixel coordinates nonzero draws and
  does not erase: the brush disk (and the connecting line, under the jump test) is
  drawn, the draw slot becomes the cursor and the erase slot is left as it was. In
  Write mode the draw rule thus takes priority over the erase rule when the count
  satisfies both.
\<close>

theorem tie_goes_to_draw:
  assumes "FINGERS_FOR_DRAW s = 2" and "FINGERS_FOR_ERASE s = 2"
    and "hx \<noteq> 0" and "hy \<noteq> 0" and "\<not> mouse_mode s" and "drawing_mode s"
  shows "handle_gestures (Some hx) (Some hy) 2 s =
           draw_on_canvas hx hy ''draw'' (s\<lparr>hand_pos := (hx, hy)\<rparr>)
         \<and> last_erase_point (handle_gestures (Some hx) (Some hy) 2 s) = last_erase_point s
         \<and> last_draw_point (handle_gestures (Some hx) (Some hy) 2 s) = Some (hx, hy)
         \<and> strokes (canvas (handle_gestures (Some hx) (Some hy) 2 s)) =
             strokes (canvas s) @ Circle (hx, hy) (brush_size s) (current_color s) #
               (case last_draw_point s of
                  None \<Rightarrow> []
                | Some (x1, y1) \<Rightarrow>
                    if sqrt (real_of_int ((hx - x1)\<^sup>2 + (hy - y1)\<^sup>2)) < 100
                    then [Line (x1, y1) (hx, hy) (current_color s) (2 * brush_size s)] else [])"
  using assms
  by (auto simp: handle_gestures_usable draw_strokes draw_fields distance_def split: option.split)

theorem tie_goes_to_draw_witness:
  "FINGERS_FOR_DRAW (new_board\<lparr>FINGERS_FOR_ERASE := 2\<rparr>) = 2
   \<and> FINGERS_FOR_ERASE (new_board\<lparr>FINGERS_FOR_ERASE := 2\<rparr>) = 2
   \<and> (320::int) \<noteq> 0 \<and> (240::int) \<noteq> 0
   \<and> \<not> mouse_mode (new_board\<lparr>FINGERS_FOR_ERASE := 2\<rparr>)
   \<and> drawing_mode (new_board\<lparr>FINGERS_FOR_ERASE := 2\<rparr>)
   \<and> strokes (canvas (handle_gestures (Some 320) (Some 240) 2 (new_board\<lparr>FINGERS_FOR_ERASE := 2\<rparr>)))
       = [Circle (320, 240) 8 (0, 255, 0)]
   \<and> last_draw_point (handle_gestures (Some 320) (Some 240) 2 (new_board\<lparr>FINGERS_FOR_ERASE := 2\<rparr>))
       = Some (320, 240)
   \<and> last_erase_point (handle_gestures (Some 320) (Some 240) 2 (new_board\<lparr>FINGERS_FOR_ERASE := 2\<rparr>))
       = None"
proof -
  let ?w = "new_board\<lparr>FINGERS_FOR_ERASE := 2\<rparr>"
  have w: "FINGERS_FOR_DRAW ?w = 2" "FINGERS_FOR_ERASE ?w = 2" "\<not> mouse_mode ?w" "drawing_mode ?w"
    by (simp_all add: new_board_fields)
  have n: "(320::int) \<noteq> 0" "(240::int) \<noteq> 0"
    by simp_all
  note t = tie_goes_to_draw [OF w(1,2) n w(3,4), THEN conjunct2]
  show ?thesis
    using t by (simp add: new_board_fields)
qed

section \<open>The stroke slots across frames\<close>

text \<open>
  C7, as claimed: a slot is absent when the distance from its point to the new point
  exceeds the jump threshold, and an Idle frame with a present cursor does not mutate
  the canvas. After a first draw frame at \<open>(10, 240)\<close>, a second draw frame with the
  same count at \<open>(320, 240)\<close>, 310 pixels away, finds the draw slot present when the
  renderer starts and leaves it present, holding the new point. And after the same
  first frame, an idle frame (three fingers, cursor at \<open>(640, 360)\<close>) of 720 by 1280
  leaves a canvas of that shape without the disk.
\<close>

theorem jump_leaves_slot_present_counterexample:
  "reachable (run_frame (webcam [hand_pose 2 (1 / 64, 1 / 2)]) (run_start True new_board))
   \<and> last_draw_point (run_frame (webcam [hand_pose 2 (1 / 64, 1 / 2)]) (run_start True new_board))
       = Some (10, 240)
   \<and> strokes (canvas (run_frame (webcam [hand_pose 2 (1 / 64, 1 / 2)]) (run_start True new_board)))
       = [Circle (10, 240) 8 (0, 255, 0)]
   \<and> hand_detection (webcam [hand_pose 2 (1 / 2, 1 / 2)])
        (prepare_frame (webcam [hand_pose 2 (1 / 2, 1 / 2)])
          (run_frame (webcam [hand_pose 2 (1 / 64, 1 / 2)]) (run_start True new_board)))
       = (Some 320, Some 240, 2, [1, 2])
   \<and> 100 < sqrt (real_of_int ((320 - 10)\<^sup>2 + (240 - 240)\<^sup>2))
   \<and> last_draw_point (detect_gesture_change 2
        (prepare_frame (webcam [hand_pose 2 (1 / 2, 1 / 2)])
          (run_frame (webcam [hand_pose 2 (1 / 64, 1 / 2)]) (run_start True new_board))))
       = Some (10, 240)
   \<and> last_draw_point (run_frame (webcam [hand_pose 2 (1 / 2, 1 / 2)])
        (run_frame (webcam [hand_pose 2 (1 / 64, 1 / 2)]) (run_start True new_board)))
       = Some (320, 240)
   \<and> hand_detection (hd_webcam [hand_pose 3 (1 / 2, 1 / 2)])
        (prepare_frame (hd_webcam [hand_pose 3 (1 / 2, 1 / 2)])
          (run_frame (webcam [hand_pose 2 (1 / 64, 1 / 2)]) (run_start True new_board)))
       = (Some 640, Some 360, 3, [1, 2, 3])
   \<and> strokes (canvas (run_frame (hd_webcam [hand_pose 3 (1 / 2, 1 / 2)])
        (run_frame (webcam [hand_pose 2 (1 / 64, 1 / 2)]) (run_start True new_board)))) = []
   \<and> shape (canvas (run_frame (hd_webcam [hand_pose 3 (1 / 2, 1 / 2)])
        (run_frame (webcam [hand_pose 2 (1 / 64, 1 / 2)]) (run_start True new_board)))) = (720, 1280)"
proof -
  have "reachable (run_frame (webcam [hand_pose 2 (1 / 64, 1 / 2)]) (run_start True new_board))"
    by (rule reachable.frame) (rule reachable.start)
  then show ?thesis
    by (simp add: frame_eval_hd sqrt_greater_100)
qed

text \<open>
  C7, amended. For every reachable state and every loop iteration that has a frame:
  if the frame's finger count differs from the previous one, both slots are absent when
  the drawing and erasing logic starts; after the iteration the draw slot is absent
  unless count and base mode select drawing (count 2 in Write mode), and the erase slot
  is absent unless the count reaches the erase threshold 4. The jump threshold does not
  clear a slot but makes the renderer treat it as absent: whenever \<open>draw_on_canvas\<close>
  runs with the slot's point 100 pixels or more from the new point, its result is
  exactly its result with that slot absent (the disk alone is stamped, and the slot
  becomes the new point). On every idle frame both slots are absent afterwards and the
  renderer does not touch the canvas: it is the previous canvas when the frame has the
  canvas's shape, and otherwise exactly the canvas that \<open>init_canvas\<close> builds at the
  frame's size.
\<close>

theorem stroke_slots_across_frames:
  assumes "reachable s" and "\<not> read_failed cam s"
    and "hand_detection cam (prepare_frame cam s) = (hx, hy, fc, ext)"
  shows "(fc \<noteq> last_finger_count s \<longrightarrow>
            last_draw_point (detect_gesture_change fc (prepare_frame cam s)) = None
            \<and> last_erase_point (detect_gesture_change fc (prepare_frame cam s)) = None)
         \<and> (fc \<noteq> 2 \<or> \<not> drawing_mode s \<longrightarrow> last_draw_point (run_frame cam s) = None)
         \<and> (fc < 4 \<longrightarrow> last_erase_point (run_frame cam s) = None)
         \<and> (\<forall>t x y x1 y1. last_draw_point t = Some (x1, y1)
               \<and> 100 \<le> sqrt (real_of_int ((x - x1)\<^sup>2 + (y - y1)\<^sup>2)) \<longrightarrow>
               draw_on_canvas x y ''draw'' t =
                 draw_on_canvas x y ''draw'' (t\<lparr>last_draw_point := None\<rparr>)
               \<and> last_draw_point (draw_on_canvas x y ''draw'' t) = Some (x, y)
               \<and> strokes (canvas (draw_on_canvas x y ''draw'' t)) =
                   strokes (canvas t) @ [Circle (x, y) (brush_size t) (current_color t)])
         \<and> (\<forall>t x y x1 y1. last_erase_point t = Some (x1, y1)
               \<and> 100 \<le> sqrt (real_of_int ((x - x1)\<^sup>2 + (y - y1)\<^sup>2)) \<longrightarrow>
               draw_on_canvas x y ''erase'' t =
                 draw_on_canvas x y ''erase'' (t\<lparr>last_erase_point := None\<rparr>)
               \<and> last_erase_point (draw_on_canvas x y ''erase'' t) = Some (x, y)
               \<and> strokes (canvas (draw_on_canvas x y ''erase'' t)) =
                   strokes (canvas t) @ [Circle (x, y) (eraser_size t) (20, 20, 20)])
         \<and> ((fc \<noteq> 2 \<or> \<not> drawing_mode s) \<and> fc < 4 \<longrightarrow>
               last_draw_point (run_frame cam s) = None
               \<and> last_erase_point (run_frame cam s) = None
               \<and> (shape (canvas s) = frame_size cam s \<longrightarrow> canvas (run_frame cam s) = canvas s)
               \<and> (shape (canvas s) \<noteq> frame_size cam s \<longrightarrow>
                    canvas (run_frame cam s) =
                      canvas (init_canvas (snd (frame_size cam s)) (fst (frame_size cam s)) s)))"
proof -
  let ?p = "detect_gesture_change fc (prepare_frame cam s)"
  have run: "run_frame cam s = handle_gestures hx hy fc ?p"
    by (simp add: run_frame_stages [OF assms(2)] assms(3))
  have "slots_consistent s"
    using assms(1) by (rule reachable_slots_consistent)
  then have inv: "slots_consistent (prepare_frame cam s)"
    by (simp add: slots_consistent_prepare_frame)
  then have cfg: "FINGERS_FOR_DRAW (detect_gesture_change n (prepare_frame cam s)) = 2"
    "FINGERS_FOR_ERASE (detect_gesture_change n (prepare_frame cam s)) = 4" for n
    by (simp_all add: slots_consistent_def gesture_change_fields)
  have mode: "drawing_mode (detect_gesture_change n (prepare_frame cam s)) = drawing_mode s" for n
    by (simp add: gesture_change_fields prepare_frame_fields)
  note pre = slots_after_gesture_change [OF inv, of fc, unfolded prepare_frame_fields]
  have a: "fc \<noteq> last_finger_count s \<longrightarrow>
            last_draw_point ?p = None \<and> last_erase_point ?p = None"
    by (simp add: detect_gesture_change_def reset_last_points_def prepare_frame_fields)
  have b: "fc \<noteq> 2 \<or> \<not> drawing_mode s \<longrightarrow> last_draw_point (run_frame cam s) = None"
    using pre handle_gestures_other_slot [of fc ?p hx hy] by (simp add: run cfg mode)
  have c: "fc < 4 \<longrightarrow> last_erase_point (run_frame cam s) = None"
    using pre handle_gestures_other_slot [of fc ?p hx hy] by (simp add: run cfg mode)
  have idle: "canvas (run_frame cam s) = canvas (prepare_frame cam s)"
    if "(fc \<noteq> 2 \<or> \<not> drawing_mode s) \<and> fc < 4"
    using that pre handle_gestures_idle [of ?p fc hx hy]
    by (simp add: run cfg mode canvas_detect_gesture_change)
  have d: "(fc \<noteq> 2 \<or> \<not> drawing_mode s) \<and> fc < 4 \<longrightarrow>
               last_draw_point (run_frame cam s) = None
               \<and> last_erase_point (run_frame cam s) = None
               \<and> (shape (canvas s) = frame_size cam s \<longrightarrow> canvas (run_frame cam s) = canvas s)
               \<and> (shape (canvas s) \<noteq> frame_size cam s \<longrightarrow>
                    canvas (run_frame cam s) =
                      canvas (init_canvas (snd (frame_size cam s)) (fst (frame_size cam s)) s))"
    using b c idle by (simp add: prepare_frame_keeps prepare_frame_resizes)
  have e: "draw_on_canvas x y ''draw'' t = draw_on_canvas x y ''draw'' (t\<lparr>last_draw_point := None\<rparr>)
           \<and> last_draw_point (draw_on_canvas x y ''draw'' t) = Some (x, y)
           \<and> strokes (canvas (draw_on_canvas x y ''draw'' t)) =
               strokes (canvas t) @ [Circle (x, y) (brush_size t) (current_color t)]"
    if "last_draw_point t = Some (x1, y1)"
      "100 \<le> sqrt (real_of_int ((x - x1)\<^sup>2 + (y - y1)\<^sup>2))" for t x y x1 y1
  proof -
    have far: "\<not> distance (x1, y1) (x, y) < 100"
      using that(2) by (simp add: distance_def)
    show ?thesis
      using draw_jump_as_absent [OF that(1) far] far
      by (simp add: draw_fields draw_strokes that(1))
  qed
  have f: "draw_on_canvas x y ''erase'' t = draw_on_canvas x y ''erase'' (t\<lparr>last_erase_point := None\<rparr>)
           \<and> last_erase_point (draw_on_canvas x y ''erase'' t) = Some (x, y)
           \<and> strokes (canvas (draw_on_canvas x y ''erase'' t)) =
               strokes (canvas t) @ [Circle (x, y) (eraser_size t) (20, 20, 20)]"
    if "last_erase_point t = Some (x1, y1)"
      "100 \<le> sqrt (real_of_int ((x - x1)\<^sup>2 + (y - y1)\<^sup>2))" for t x y x1 y1
  proof -
    have far: "\<not> distance (x1, y1) (x, y) < 100"
      using that(2) by (simp add: distance_def)
    show ?thesis
      using erase_jump_as_absent [OF that(1) far] far
      by (simp add: erase_fields erase_strokes that(1))
  qed
  from a b c d e f show ?thesis
    by blast
qed

theorem stroke_slots_across_frames_witness:
  "reachable (run_frame (webcam [hand_pose 2 (1 / 64, 1 / 2)]) (run_start True new_board))
   \<and> \<not> read_failed (webcam [hand_pose 3 (1 / 2, 1 / 2)])
         (run_frame (webcam [hand_pose 2 (1 / 64, 1 / 2)]) (run_start True new_board))
   \<and> hand_detection (webcam [hand_pose 3 (1 / 2, 1 / 2)])
        (prepare_frame (webcam [hand_pose 3 (1 / 2, 1 / 2)])
          (run_frame (webcam [hand_pose 2 (1 / 64, 1 / 2)]) (run_start True new_board)))
       = (Some 320, Some 240, 3, [1, 2, 3])
   \<and> last_draw_point (run_frame (webcam [hand_pose 3 (1 / 2, 1 / 2)])
        (run_frame (webcam [hand_pose 2 (1 / 64, 1 / 2)]) (run_start True new_board)))
       = None
   \<and> strokes (canvas (run_frame (webcam [hand_pose 3 (1 / 2, 1 / 2)])
        (run_frame (webcam [hand_pose 2 (1 / 64, 1 / 2)]) (run_start True new_board))))
       = [Circle (10, 240) 8 (0, 255, 0)]
   \<and> canvas (run_frame (hd_webcam [hand_pose 3 (1 / 2, 1 / 2)])
        (run_frame (webcam [hand_pose 2 (1 / 64, 1 / 2)]) (run_start True new_board)))
       = \<lparr>shape = (720, 1280), pixels = replicate 720 (replicate 1280 (20, 20, 20)), strokes = []\<rparr>
   \<and> last_erase_point (run_frame (webcam [hand_pose 2 (1 / 2, 1 / 2)])
        (run_frame (webcam [hand_pose 2 (1 / 64, 1 / 2)]) (run_start True new_board)))
       = None
   \<and> last_draw_point (run_frame (webcam [hand_pose 2 (1 / 64, 1 / 2)]) (run_start True new_board))
       = Some (10, 240)
   \<and> 100 \<le> sqrt (real_of_int ((320 - 10)\<^sup>2 + (240 - 240)\<^sup>2))
   \<and> last_draw_point (draw_on_canvas 320 240 ''draw''
        (run_frame (webcam [hand_pose 2 (1 / 64, 1 / 2)]) (run_start True new_board)))
       = Some (320, 240)
   \<and> strokes (canvas (draw_on_canvas 320 240 ''draw''
        (run_frame (webcam [hand_pose 2 (1 / 64, 1 / 2)]) (run_start True new_board))))
       = [Circle (10, 240) 8 (0, 255, 0), Circle (320, 240) 8 (0, 255, 0)]"
proof -
  let ?s = "run_frame (webcam [hand_pose 2 (1 / 64, 1 / 2)]) (run_start True new_board)"
  let ?far = "webcam [hand_pose 2 (1 / 2, 1 / 2)]"
  let ?idle = "webcam [hand_pose 3 (1 / 2, 1 / 2)]"
  let ?wide = "hd_webcam [hand_pose 3 (1 / 2, 1 / 2)]"
  have r: "reachable ?s"
    by (rule reachable.frame) (rule reachable.start)
  have f: "\<not> read_failed (webcam l) ?s" "\<not> read_failed (hd_webcam l) ?s" for l
    by (simp_all add: read_failed_def webcam_def hd_webcam_def)
  have d2: "hand_detection ?far (prepare_frame ?far ?s) = (Some 320, Some 240, 2, [1, 2])"
    by (simp add: frame_eval)
  have d3: "hand_detection ?idle (prepare_frame ?idle ?s) = (Some 320, Some 240, 3, [1, 2, 3])"
    by (simp add: frame_eval)
  have d4: "hand_detection ?wide (prepare_frame ?wide ?s) = (Some 640, Some 360, 3, [1, 2, 3])"
    by (simp add: frame_eval_hd)
  have slot: "last_draw_point ?s = Some (10, 240)"
    by (simp add: frame_eval)
  have st: "strokes (canvas ?s) = [Circle (10, 240) 8 (0, 255, 0)]"
    "brush_size ?s = 8" "current_color ?s = (0, 255, 0)"
    by (simp_all add: frame_eval)
  have far: "100 \<le> sqrt (real_of_int ((320 - 10)\<^sup>2 + (240 - 240)\<^sup>2))"
    using sqrt_greater_100 [of 96100] by simp
  have same: "shape (canvas ?s) = frame_size ?idle ?s"
    by (simp add: frame_eval)
  have other: "shape (canvas ?s) \<noteq> frame_size ?wide ?s" "frame_size ?wide ?s = (720, 1280)"
    by (simp_all add: frame_eval_hd)
  note t = stroke_slots_across_frames [OF r f(1) d2]
  note u = stroke_slots_across_frames [OF r f(1) d3]
  note v = stroke_slots_across_frames [OF r f(2) d4]
  note jump = t [THEN conjunct2, THEN conjunct2, THEN conjunct2, THEN conjunct1, rule_format,
                 of ?s 10 240 320 240, OF conjI [OF slot far]]
  have a: "last_draw_point (draw_on_canvas 320 240 ''draw'' ?s) = Some (320, 240)"
    using jump by blast
  have a': "strokes (canvas (draw_on_canvas 320 240 ''draw'' ?s)) =
      [Circle (10, 240) 8 (0, 255, 0), Circle (320, 240) 8 (0, 255, 0)]"
    using jump [THEN conjunct2, THEN conjunct2] by (simp add: st)
  have b: "last_erase_point (run_frame ?far ?s) = None"
    using t [THEN conjunct2, THEN conjunct2, THEN conjunct1] by simp
  note idle = u [THEN conjunct2, THEN conjunct2, THEN conjunct2, THEN conjunct2, THEN conjunct2]
  note wide = v [THEN conjunct2, THEN conjunct2, THEN conjunct2, THEN conjunct2, THEN conjunct2]
  have c: "last_draw_point (run_frame ?idle ?s) = None"
    using idle by simp
  have e: "canvas (run_frame ?idle ?s) = canvas ?s"
    using idle same by simp
  have g: "canvas (run_frame ?wide ?s) =
      canvas (init_canvas (snd (frame_size ?wide ?s)) (fst (frame_size ?wide ?s)) ?s)"
    using wide other(1) by simp
  show ?thesis
    using r f(1) d3 slot far a a' b c
    by (simp add: e g st other(2) canvas_init_canvas fill_zeros)
qed

end
